theory Spec2Isabelle
  imports Main
begin

section \<open>Landsat downloader: tile selection and download orchestration\<close>

text \<open>
  A shallow embedding of \<^verbatim>\<open>src/api/landsat_api.py\<close>. Python exceptions are values of
  the type \<open>exn\<close>, a function that may raise returns \<open>exn + 'a\<close> (\<open>Inl\<close> the exception),
  \<open>None\<close> is the \<open>None\<close> of an option type. The remote services, the geometry library
  and the archive reader are parameters of the model: a record holds, for every call the
  code makes on them, what that call answers.
\<close>

subsection \<open>Exceptions and data\<close>

datatype exn =
    TypeError
  | AttributeError
  | StopIteration
  | LandsatxploreError
  | External string

record scene =
  display_id :: string
  entity_id :: string

text \<open>
  The status labels the code writes into column 1 of the information table, in the order
  of their first use in \<^verbatim>\<open>download_landsat_images\<close>: the initial label of a listed
  product, "in the folder", "downloading...", "downloaded!", "downloaded and unpacked!"
  and "error".
\<close>

datatype status =
    NeedsDownload
  | InStorage
  | Downloading
  | Downloaded
  | Extracted
  | Error

subsection \<open>\<^verbatim>\<open>get_tile_list\<close>\<close>

text \<open>
  A GeoDataFrame is its coordinate reference system and its rows. A row of the grid has
  the attribute \<^verbatim>\<open>Name\<close> and a geometry; of the rows of the input shapefile only the
  geometries are read.
\<close>

record 'g grid_row =
  Name :: string
  geometry :: 'g

record ('c, 'g) grid_frame =
  grid_crs :: 'c
  grid_rows :: "'g grid_row list"

record ('c, 'g) shape_frame =
  shape_crs :: 'c
  shape_geoms :: "'g list"

text \<open>
  The three calls into geopandas and shapely: \<^verbatim>\<open>to_crs\<close> (source system, target system,
  geometries), \<^verbatim>\<open>unary_union\<close> and \<^verbatim>\<open>intersects\<close>. Each may raise.
\<close>

record ('c, 'g) geo_lib =
  to_crs :: "'c \<Rightarrow> 'c \<Rightarrow> 'g list \<Rightarrow> exn + 'g list"
  unary_union :: "'g list \<Rightarrow> exn + 'g"
  intersects :: "'g \<Rightarrow> 'g \<Rightarrow> exn + bool"

text \<open>\<^verbatim>\<open>s.replace(old, new)\<close> for one-character \<^verbatim>\<open>old\<close> and \<^verbatim>\<open>new\<close>.\<close>

fun str_replace :: "char \<Rightarrow> char \<Rightarrow> string \<Rightarrow> string" where
  "str_replace old new [] = []"
| "str_replace old new (c # cs) = (if c = old then new else c) # str_replace old new cs"

text \<open>Lines 22-23: reproject the input when the two reference systems differ.\<close>

definition reproject ::
  "('c, 'g) geo_lib \<Rightarrow> ('c, 'g) grid_frame \<Rightarrow> ('c, 'g) shape_frame \<Rightarrow> exn + 'g list" where
  "reproject lib satellite_grid input_shapefile =
     (if shape_crs input_shapefile \<noteq> grid_crs satellite_grid
      then to_crs lib (shape_crs input_shapefile) (grid_crs satellite_grid)
             (shape_geoms input_shapefile)
      else Inr (shape_geoms input_shapefile))"

text \<open>Lines 28-30: the loop over the rows of the grid, appending to \<^verbatim>\<open>selected_polygons\<close>.\<close>

fun select_rows ::
  "('c, 'g) geo_lib \<Rightarrow> 'g \<Rightarrow> 'g grid_row list \<Rightarrow> string list \<Rightarrow> exn + string list" where
  "select_rows lib single_polygon [] selected_polygons = Inr selected_polygons"
| "select_rows lib single_polygon (row # rest) selected_polygons =
     (case intersects lib (geometry row) single_polygon of
        Inl e \<Rightarrow> Inl e
      | Inr hit \<Rightarrow>
          select_rows lib single_polygon rest
            (if hit then selected_polygons @ [str_replace CHR ''_'' CHR ''0'' (Name row)]
             else selected_polygons))"

definition get_tile_list ::
  "('c, 'g) geo_lib \<Rightarrow> ('c, 'g) grid_frame \<Rightarrow> ('c, 'g) shape_frame \<Rightarrow> exn + string list" where
  "get_tile_list lib satellite_grid input_shapefile =
     (case reproject lib satellite_grid input_shapefile of
        Inl e \<Rightarrow> Inl e
      | Inr geoms \<Rightarrow>
          (case unary_union lib geoms of
             Inl e \<Rightarrow> Inl e
           | Inr single_polygon \<Rightarrow>
               select_rows lib single_polygon (grid_rows satellite_grid) []))"

text \<open>
  A small geometry library to run the function on: a shape is the finite set of lattice
  points it covers, given as a list; the union of shapes is their concatenation, two
  shapes intersect when they share a point, reprojection is the identity, and no call
  raises. The empty shape is the empty list, and it intersects nothing, as the empty
  geometry of shapely does: the union of no geometries is empty, and \<^verbatim>\<open>intersects\<close> with
  an empty geometry is false.
\<close>

definition lattice_lib :: "(nat, (int \<times> int) list) geo_lib" where
  "lattice_lib =
     \<lparr> to_crs = (\<lambda>src dst gs. Inr gs),
       unary_union = (\<lambda>gs. Inr (concat gs)),
       intersects = (\<lambda>a b. Inr (list_ex (\<lambda>p. p \<in> set b) a)) \<rparr>"

definition example_grid :: "(nat, (int \<times> int) list) grid_frame" where
  "example_grid =
     \<lparr> grid_crs = 0,
       grid_rows =
         [ \<lparr> Name = ''001_02'', geometry = [(0, 0), (0, 1), (1, 0), (1, 1)] \<rparr>,
           \<lparr> Name = ''003_04'', geometry = [(5, 5), (5, 6), (6, 5), (6, 6)] \<rparr> ] \<rparr>"

subsection \<open>The work list\<close>

text \<open>\<^verbatim>\<open>s[lo:hi]\<close> for non-negative bounds: Python cuts the slice at the end of the string.\<close>

definition py_slice :: "nat \<Rightarrow> nat \<Rightarrow> 'a list \<Rightarrow> 'a list" where
  "py_slice lo hi s = take (hi - lo) (drop lo s)"

text \<open>\<^verbatim>\<open>any(zone == code for zone in zones)\<close>.\<close>

fun any_zone :: "string \<Rightarrow> string list \<Rightarrow> bool" where
  "any_zone code [] = False"
| "any_zone code (zone # zones) = (if zone = code then True else any_zone code zones)"

text \<open>
  Lines 143-150: the list comprehension building \<^verbatim>\<open>data_for_table\<close>, with
  \<^verbatim>\<open>image_tiles_set = set(verified_tiles)\<close>.
\<close>

fun data_for_table :: "scene list \<Rightarrow> string list \<Rightarrow> string set \<Rightarrow> (string \<times> status) list" where
  "data_for_table [] zones image_tiles_set = []"
| "data_for_table (t # query) zones image_tiles_set =
     (if any_zone (py_slice 10 16 (display_id t)) zones
      then (if display_id t \<notin> image_tiles_set
            then (display_id t, NeedsDownload) # data_for_table query zones image_tiles_set
            else data_for_table query zones image_tiles_set)
      else data_for_table query zones image_tiles_set)"

subsection \<open>Remote services, console and table\<close>

text \<open>
  The catalog API (\<^verbatim>\<open>landsatxplore.api.API\<close>), the download service
  (\<^verbatim>\<open>landsatxplore.earthexplorer.EarthExplorer\<close>), \<^verbatim>\<open>tarfile\<close> and the calls into
  \<^verbatim>\<open>os\<close>: for each call of the code, what it answers. \<^verbatim>\<open>get_fileinfo\<close> takes the dataset
  identifier and the product identifier of the URL it is called with; \<^verbatim>\<open>ee_download\<close> the
  identifier and the dataset; \<^verbatim>\<open>extractall\<close> the name of the archive that is opened and
  unpacked, and answers whether the archive had members, that is, whether the folder it is
  unpacked into exists afterwards. \<^verbatim>\<open>os_listdir\<close> is \<^verbatim>\<open>os.listdir(dir_downld)\<close>: \<open>Inl\<close> when
  listing the directory raises, for the whole run; when it returns, the names listed are
  those of the state. The two \<^verbatim>\<open>os.remove\<close> of the code take the name, in the
  directory, of the file to remove: \<^verbatim>\<open>os_remove_stale\<close> is the one
  of line 174, of an archive found before the download, \<^verbatim>\<open>os_remove_unpacked\<close> the one of
  line 212, of the archive that was just unpacked.
\<close>

record remote =
  API :: "string \<Rightarrow> string \<Rightarrow> exn + unit"
  api_search :: "string \<Rightarrow> string \<Rightarrow> string \<Rightarrow> string \<Rightarrow> string \<Rightarrow> nat \<Rightarrow> exn + scene list"
  api_logout :: "exn + unit"
  EarthExplorer :: "string \<Rightarrow> string \<Rightarrow> exn + unit"
  get_fileinfo :: "string \<Rightarrow> string \<Rightarrow> exn + string \<times> nat"
  ee_download :: "string \<Rightarrow> string \<Rightarrow> exn + unit"
  extractall :: "string \<Rightarrow> exn + bool"
  os_listdir :: "exn + unit"
  os_remove_stale :: "string \<Rightarrow> exn + unit"
  os_remove_unpacked :: "string \<Rightarrow> exn + unit"

record query_params =
  dataset :: string
  bbox :: string
  start_date :: string
  end_date :: string
  max_cloud_cover :: string

text \<open>The lines the code prints, one constructor for each \<^verbatim>\<open>print\<close> of the source.\<close>

datatype message =
    MsgApiConnected
  | MsgApiLandsatxploreError exn
  | MsgApiUnexpected exn
  | MsgEEConnected
  | MsgEELandsatxploreError exn
  | MsgEEUnexpected exn
  | MsgNoProducts
  | MsgScenesFound nat
  | MsgCannotProcess
  | MsgZones "string list"
  | MsgAfterFilter nat
  | MsgNothingAfterFilter
  | MsgInFolder string
  | MsgNotInStorage string
  | MsgDownloaded string
  | MsgError string exn
  | MsgCount nat

text \<open>
  What a run does to the outside, in order: lines printed, calls that reach the remote
  services, directory listings (with the name looked for), removals asked of the file
  system, progress bars created (archive name and expected size) and archives opened.
\<close>

datatype event =
    Print message
  | ApiLogin
  | ApiSearch
  | ApiLogout
  | EELogin
  | ListDir string
  | RemoveFile string
  | FileInfo string string
  | ProgressBar string "nat option"
  | Download string string
  | Extract string

text \<open>
  The state of the loop of \<^verbatim>\<open>download_landsat_images\<close>: the list \<^verbatim>\<open>titles\<close>, the rows the
  information table shows, the names present in \<^verbatim>\<open>dir_downld\<close>, and the events so far.
\<close>

record run_state =
  titles :: "string list"
  table :: "(string \<times> status) list"
  files :: "string set"
  events :: "event list"

text \<open>
  Modelled from the spec: \<^verbatim>\<open>InformationTable\<close> of \<^verbatim>\<open>gui.gui_utils\<close>, which is not among the
  sources. The table is created from \<^verbatim>\<open>data_for_table\<close> and \<^verbatim>\<open>insert(row_num, 1, label)\<close>
  overwrites the status label of row \<^verbatim>\<open>row_num\<close>. The function below is the source's loop
  \<^verbatim>\<open>for row_num, row in enumerate(data_for_table): if row[0] == title: insert; break\<close>:
  the first row with that title gets the label. \<^verbatim>\<open>DownloadBarFrame\<close> and
  \<^verbatim>\<open>DownloadProgressBar\<close> come from the same module: creating them is the event
  \<open>ProgressBar\<close>, and they are taken not to raise.
\<close>

fun mark_row :: "string \<Rightarrow> status \<Rightarrow> (string \<times> status) list \<Rightarrow> (string \<times> status) list" where
  "mark_row title label [] = []"
| "mark_row title label (row # rows) =
     (if fst row = title then (fst row, label) # rows else row # mark_row title label rows)"

subsection \<open>\<^verbatim>\<open>landsat_explorer_login\<close>, \<^verbatim>\<open>earth_explorer_login\<close>, \<^verbatim>\<open>landsat_search\<close>\<close>

definition landsat_explorer_login :: "remote \<Rightarrow> string \<Rightarrow> string \<Rightarrow> unit option \<times> event list" where
  "landsat_explorer_login srv username password =
     (case API srv username password of
        Inr api \<Rightarrow> (Some api, [ApiLogin, Print MsgApiConnected])
      | Inl e \<Rightarrow>
          (None, [ApiLogin,
                  Print (case e of LandsatxploreError \<Rightarrow> MsgApiLandsatxploreError e
                                | _ \<Rightarrow> MsgApiUnexpected e)]))"

definition earth_explorer_login :: "remote \<Rightarrow> string \<Rightarrow> string \<Rightarrow> unit option \<times> event list" where
  "earth_explorer_login srv username password =
     (case EarthExplorer srv username password of
        Inr ee \<Rightarrow> (Some ee, [EELogin, Print MsgEEConnected])
      | Inl e \<Rightarrow>
          (None, [EELogin,
                  Print (case e of LandsatxploreError \<Rightarrow> MsgEELandsatxploreError e
                                | _ \<Rightarrow> MsgEEUnexpected e)]))"

text \<open>
  Lines 96-114. With \<^verbatim>\<open>api\<close> equal to \<^verbatim>\<open>None\<close> the call \<^verbatim>\<open>api.search\<close> raises
  AttributeError; the bare \<^verbatim>\<open>except\<close> catches whatever the \<^verbatim>\<open>try\<close> block raises. The branch
  for an empty result prints and reaches the end of the function, which returns \<^verbatim>\<open>None\<close>.
\<close>

definition landsat_search ::
  "remote \<Rightarrow> string \<Rightarrow> string \<Rightarrow> string \<Rightarrow> string \<Rightarrow> string \<Rightarrow> string \<Rightarrow> string \<Rightarrow>
   scene list option \<times> event list" where
  "landsat_search srv username password dataset' bbox' start_date' end_date' max_cloud_cover' =
     (case landsat_explorer_login srv username password of
        (None, evs) \<Rightarrow> (None, evs @ [Print MsgCannotProcess])
      | (Some api, evs) \<Rightarrow>
          (case api_search srv dataset' bbox' start_date' end_date' max_cloud_cover' 500 of
             Inl e \<Rightarrow> (None, evs @ [ApiSearch, Print MsgCannotProcess])
           | Inr scenes_landsat \<Rightarrow>
               (case api_logout srv of
                  Inl e \<Rightarrow> (None, evs @ [ApiSearch, ApiLogout, Print MsgCannotProcess])
                | Inr _ \<Rightarrow>
                    (if length scenes_landsat = 0
                     then (None, evs @ [ApiSearch, ApiLogout, Print MsgNoProducts])
                     else (Some scenes_landsat,
                           evs @ [ApiSearch, ApiLogout,
                                  Print (MsgScenesFound (length scenes_landsat))])))))"

subsection \<open>\<^verbatim>\<open>download_landsat_images\<close>\<close>

definition dataset_id_list :: "string list" where
  "dataset_id_list = [''5e83d14f30ea90a9'', ''5e83d14fec7cae84'', ''632210d4770592cf'']"

text \<open>
  Lines 184-193: the loop over \<^verbatim>\<open>dataset_id_list\<close>, giving \<^verbatim>\<open>final_file_size\<close> and the calls
  made. Without a session (\<^verbatim>\<open>ee\<close> is \<^verbatim>\<open>None\<close>) every \<^verbatim>\<open>ee._get_fileinfo\<close> raises
  AttributeError before any request; the bare \<^verbatim>\<open>except\<close> catches it like any other.
\<close>

fun probe_fileinfo :: "remote \<Rightarrow> unit option \<Rightarrow> string \<Rightarrow> string list \<Rightarrow> nat option \<times> event list" where
  "probe_fileinfo srv ee product_id [] = (None, [])"
| "probe_fileinfo srv ee product_id (dataset_id # rest) =
     (case ee of
        None \<Rightarrow> probe_fileinfo srv ee product_id rest
      | Some _ \<Rightarrow>
          (case get_fileinfo srv dataset_id product_id of
             Inr (filename, file_size) \<Rightarrow> (Some file_size, [FileInfo dataset_id product_id])
           | Inl e \<Rightarrow>
               (case probe_fileinfo srv ee product_id rest of
                  (file_size, calls) \<Rightarrow> (file_size, FileInfo dataset_id product_id # calls))))"

text \<open>
  Lines 179-217, the body of the \<^verbatim>\<open>try\<close>: \<open>Inl e\<close> when it raises \<open>e\<close>, with the state reached
  by then. A download that succeeds leaves the archive \<^verbatim>\<open>title + ".tar"\<close> in the directory;
  an extraction that succeeds leaves the folder \<^verbatim>\<open>title\<close> when the archive had members; the
  archive is gone once \<^verbatim>\<open>os.remove\<close> has returned. A download or an extraction that fails
  is taken to leave the directory as it was.
\<close>

definition download_and_extract ::
  "remote \<Rightarrow> unit option \<Rightarrow> scene list \<Rightarrow> string \<Rightarrow> string \<Rightarrow> run_state \<Rightarrow> (exn + unit) \<times> run_state" where
  "download_and_extract srv ee query dataset' title st =
     (case find (\<lambda>product. display_id product = title) query of
        None \<Rightarrow> (Inl StopIteration, st)
      | Some product \<Rightarrow>
          (let product_id = entity_id product;
               archive_name = title @ ''.tar'';
               probe = probe_fileinfo srv ee product_id dataset_id_list;
               final_file_size = fst probe;
               st1 = st \<lparr> table := mark_row title Downloading (table st),
                          events := events st @ snd probe
                                      @ [ProgressBar archive_name final_file_size] \<rparr>
           in (case ee of
                 None \<Rightarrow> (Inl AttributeError, st1)
               | Some _ \<Rightarrow>
                   (case ee_download srv product_id dataset' of
                      Inl e \<Rightarrow> (Inl e, st1 \<lparr> events := events st1 @ [Download product_id dataset'] \<rparr>)
                    | Inr _ \<Rightarrow>
                        (let st2 = st1 \<lparr> files := insert archive_name (files st1),
                                         table := mark_row title Downloaded (table st1),
                                         events := events st1
                                                     @ [Download product_id dataset',
                                                        Print (MsgDownloaded title)] \<rparr>
                         in (case extractall srv archive_name of
                               Inl e \<Rightarrow> (Inl e, st2 \<lparr> events := events st2 @ [Extract archive_name] \<rparr>)
                             | Inr has_members \<Rightarrow>
                                 (let st3 = st2 \<lparr> files := (if has_members
                                                             then insert title (files st2)
                                                             else files st2),
                                                  events := events st2
                                                              @ [Extract archive_name,
                                                                 RemoveFile archive_name] \<rparr>
                                  in (case os_remove_unpacked srv archive_name of
                                        Inl e \<Rightarrow> (Inl e, st3)
                                      | Inr _ \<Rightarrow>
                                          (Inr (),
                                           st3 \<lparr> files := files st3 - {archive_name},
                                                 table := mark_row title Extracted
                                                            (table st3) \<rparr>)))))))))"

text \<open>
  Lines 176-225: the line printed before the \<^verbatim>\<open>try\<close>, the \<^verbatim>\<open>try\<close>, and the handler
  \<^verbatim>\<open>except Exception\<close>, which removes the title from \<^verbatim>\<open>titles\<close>.
\<close>

definition try_download ::
  "remote \<Rightarrow> unit option \<Rightarrow> scene list \<Rightarrow> string \<Rightarrow> string \<Rightarrow> run_state \<Rightarrow> run_state" where
  "try_download srv ee query dataset' title st =
     (case download_and_extract srv ee query dataset' title
             (st \<lparr> events := events st @ [Print (MsgNotInStorage title)] \<rparr>) of
        (Inr _, st') \<Rightarrow> st'
      | (Inl e, st') \<Rightarrow>
          st' \<lparr> titles := remove1 title (titles st'),
                table := mark_row title Error (table st'),
                events := events st' @ [Print (MsgError title e)] \<rparr>)"

text \<open>
  Lines 164-225: the body of \<^verbatim>\<open>for title in titles\<close>. The two \<^verbatim>\<open>os.listdir\<close> and the
  \<^verbatim>\<open>os.remove\<close> of the stale archive (lines 164, 173, 174) stand outside the \<^verbatim>\<open>try\<close>: what
  they raise leaves the loop and the function, \<open>Inl e\<close> here.
\<close>

definition process_title ::
  "remote \<Rightarrow> unit option \<Rightarrow> scene list \<Rightarrow> string \<Rightarrow> string \<Rightarrow> run_state \<Rightarrow> (exn + unit) \<times> run_state" where
  "process_title srv ee query dataset' title st =
     (case os_listdir srv of
        Inl e \<Rightarrow> (Inl e, st \<lparr> events := events st @ [ListDir title] \<rparr>)
      | Inr _ \<Rightarrow>
          (if title \<in> files st
           then (Inr (),
                 st \<lparr> table := mark_row title InStorage (table st),
                      events := events st @ [ListDir title, Print (MsgInFolder title)] \<rparr>)
           else
             (let archive_name = title @ ''.tar''
              in if archive_name \<in> files st
                 then
                   (case os_remove_stale srv archive_name of
                      Inl e \<Rightarrow>
                        (Inl e,
                         st \<lparr> events := events st
                                          @ [ListDir title, ListDir archive_name,
                                             RemoveFile archive_name] \<rparr>)
                    | Inr _ \<Rightarrow>
                        (Inr (),
                         try_download srv ee query dataset' title
                           (st \<lparr> files := files st - {archive_name},
                                 events := events st
                                             @ [ListDir title, ListDir archive_name,
                                                RemoveFile archive_name] \<rparr>)))
                 else
                   (Inr (),
                    try_download srv ee query dataset' title
                      (st \<lparr> events := events st
                                        @ [ListDir title, ListDir archive_name] \<rparr>)))))"

text \<open>
  Line 163: \<^verbatim>\<open>for title in titles\<close>. Python's list iterator keeps an index into the list
  object: each round it stops when the index has reached the present length of the list,
  and otherwise takes the element at the index and increments the index. The body removes
  from that same list (line 220), so the length and the elements are read from the state.
  An exception that leaves the body ends the loop.
\<close>

function download_loop ::
  "remote \<Rightarrow> unit option \<Rightarrow> scene list \<Rightarrow> string \<Rightarrow> nat \<Rightarrow> run_state \<Rightarrow> (exn + unit) \<times> run_state" where
  "download_loop srv ee query dataset' i st =
     (if i < length (titles st)
      then (case process_title srv ee query dataset' (titles st ! i) st of
              (Inl e, st') \<Rightarrow> (Inl e, st')
            | (Inr _, st') \<Rightarrow> download_loop srv ee query dataset' (Suc i) st')
      else (Inr (), st))"
  by pat_completeness auto
termination
proof (relation "measure (\<lambda>(srv, ee, query, dataset', i, st). length (titles st) - i)")
  show "wf (measure (\<lambda>(srv, ee, query, dataset', i, st). length (titles st) - i))"
    by simp
next
  fix srv :: remote and ee :: "unit option" and query :: "scene list"
    and dataset' :: string and i :: nat and st st' :: run_state
    and r :: "exn + unit" and u :: unit
  assume less: "i < length (titles st)"
    and body: "(r, st') = process_title srv ee query dataset' (titles st ! i) st"
  have same: "titles (snd (download_and_extract srv ee query dataset' t s)) = titles s"
    for t s
    by (simp add: download_and_extract_def Let_def split: option.split sum.split)
  have handled: "length (titles (try_download srv ee query dataset' t s)) \<le> length (titles s)"
    for t s
    using same [of t "s \<lparr> events := events s @ [Print (MsgNotInStorage t)] \<rparr>"]
    by (auto simp: try_download_def length_remove1 split: prod.split sum.split)
  have "length (titles (snd (process_title srv ee query dataset' t st))) \<le> length (titles st)"
    for t
    using handled [of t "st \<lparr> events := events st @ [ListDir t, ListDir (t @ ''.tar'')] \<rparr>"]
      handled [of t "st \<lparr> files := files st - {t @ ''.tar''},
                       events := events st @ [ListDir t, ListDir (t @ ''.tar''),
                                              RemoveFile (t @ ''.tar'')] \<rparr>"]
    by (simp add: process_title_def Let_def split: sum.split)
  from this [of "titles st ! i"] body [symmetric]
  have "length (titles st') \<le> length (titles st)"
    by simp
  with less show
    "((srv, ee, query, dataset', Suc i, st'), (srv, ee, query, dataset', i, st))
     \<in> measure (\<lambda>(srv, ee, query, dataset', i, st). length (titles st) - i)"
    by simp
qed

definition download_landsat_images ::
  "remote \<Rightarrow> ('c, 'g) geo_lib \<Rightarrow> string \<Rightarrow> string \<Rightarrow> query_params \<Rightarrow>
   ('c, 'g) grid_frame \<Rightarrow> ('c, 'g) shape_frame \<Rightarrow> string set \<Rightarrow> string list \<Rightarrow>
   (exn + string list) \<times> run_state" where
  "download_landsat_images srv lib username password qp satellite_grid input_shapefile
       dir_downld verified_tiles =
     (case landsat_search srv username password (dataset qp) (bbox qp) (start_date qp)
             (end_date qp) (max_cloud_cover qp) of
        (query, evs1) \<Rightarrow>
          (case get_tile_list lib satellite_grid input_shapefile of
             Inl e \<Rightarrow> (Inl e, \<lparr> titles = [], table = [], files = dir_downld, events = evs1 \<rparr>)
           | Inr zones \<Rightarrow>
               (case query of
                  None \<Rightarrow>
                    (Inl TypeError,
                     \<lparr> titles = [], table = [], files = dir_downld,
                       events = evs1 @ [Print (MsgZones zones)] \<rparr>)
                | Some scenes \<Rightarrow>
                    (let data = data_for_table scenes zones (set verified_tiles);
                         ts = map fst data;
                         evs2 = evs1 @ [Print (MsgZones zones), Print (MsgAfterFilter (length ts))]
                     in if ts = []
                        then (Inr ts,
                              \<lparr> titles = ts, table = data, files = dir_downld,
                                events = evs2 @ [Print MsgNothingAfterFilter] \<rparr>)
                        else
                          (case earth_explorer_login srv username password of
                             (ee, evs3) \<Rightarrow>
                               (case download_loop srv ee scenes (dataset qp) 0
                                       \<lparr> titles = ts, table = data, files = dir_downld,
                                         events = evs2 @ evs3 \<rparr> of
                                  (Inl e, st) \<Rightarrow> (Inl e, st)
                                | (Inr _, st) \<Rightarrow>
                                    (Inr (titles st),
                                     st \<lparr> events := events st
                                                      @ [Print (MsgCount (length (titles st)))] \<rparr>)))))))"

subsection \<open>The probe in the words of the claim\<close>





subsection \<open>Concrete runs\<close>

text \<open>
  Inputs to run the functions on. The grid is \<open>example_grid\<close>; the area covers a point
  of its first cell only. The catalog knows three scenes, two of them in that cell.
\<close>

definition example_area :: "(nat, (int \<times> int) list) shape_frame" where
  "example_area = \<lparr> shape_crs = 0, shape_geoms = [[(1, 1), (2, 2)]] \<rparr>"

definition empty_area :: "(nat, (int \<times> int) list) shape_frame" where
  "empty_area = \<lparr> shape_crs = 0, shape_geoms = [] \<rparr>"

definition scene_a :: scene where
  "scene_a = \<lparr> display_id = ''LC09_L2SP_001002_A'', entity_id = ''E1'' \<rparr>"

definition scene_b :: scene where
  "scene_b = \<lparr> display_id = ''LC09_L2SP_001002_B'', entity_id = ''E2'' \<rparr>"

definition scene_c :: scene where
  "scene_c = \<lparr> display_id = ''LC09_L2SP_003004_C'', entity_id = ''E3'' \<rparr>"

definition example_qp :: query_params where
  "example_qp =
     \<lparr> dataset = ''landsat_ot_c2_l2'', bbox = ''0, 0, 2, 2'', start_date = ''2024-01-01'',
       end_date = ''2024-02-01'', max_cloud_cover = ''10'' \<rparr>"

text \<open>
  Services where every call succeeds, except that the first two dataset identifiers have
  no file information; the size comes from the third.
\<close>

definition good_remote :: remote where
  "good_remote =
     \<lparr> API = (\<lambda>username password. Inr ()),
       api_search = (\<lambda>d b s e m n. Inr [scene_a, scene_b, scene_c]),
       api_logout = Inr (),
       EarthExplorer = (\<lambda>username password. Inr ()),
       get_fileinfo = (\<lambda>dataset_id product_id.
          if dataset_id = ''632210d4770592cf'' then Inr (product_id @ ''.tar'', 1000)
          else Inl (External ''HTTPError'')),
       ee_download = (\<lambda>product_id d. Inr ()),
       extractall = (\<lambda>archive_name. Inr True),
       os_listdir = Inr (),
       os_remove_stale = (\<lambda>name. Inr ()),
       os_remove_unpacked = (\<lambda>name. Inr ()) \<rparr>"

text \<open>The same services, with the download of the first scene failing.\<close>

definition first_download_fails :: remote where
  "first_download_fails =
     good_remote \<lparr> ee_download := (\<lambda>product_id d.
        if product_id = ''E1'' then Inl (External ''EarthExplorerError'') else Inr ()) \<rparr>"

text \<open>The same services, with the search raising, and with the search finding nothing.\<close>

definition search_fails :: remote where
  "search_fails =
     good_remote \<lparr> api_search := (\<lambda>d b s e m n. Inl (External ''ConnectionError'')) \<rparr>"

definition search_finds_nothing :: remote where
  "search_finds_nothing = good_remote \<lparr> api_search := (\<lambda>d b s e m n. Inr []) \<rparr>"




section \<open>Properties\<close>

lemma any_zone_iff: "any_zone code zones \<longleftrightarrow> code \<in> set zones"
  by (induction zones) auto

lemma str_replace_map: "str_replace old new s = map (\<lambda>c. if c = old then new else c) s"
  by (induction s) auto

lemma select_rows_acc:
  "select_rows lib sp rows acc = Inr ids \<Longrightarrow>
   ids = acc @ map (\<lambda>r. str_replace CHR ''_'' CHR ''0'' (Name r))
                 (filter (\<lambda>r. intersects lib (geometry r) sp = Inr True) rows)"
proof (induction rows arbitrary: acc)
  case Nil
  then show ?case by simp
next
  case (Cons row rest)
  show ?case
  proof (cases "intersects lib (geometry row) sp")
    case (Inl e)
    with Cons.prems show ?thesis by simp
  next
    case (Inr hit)
    with Cons.prems have
      "select_rows lib sp rest
         (if hit then acc @ [str_replace CHR ''_'' CHR ''0'' (Name row)] else acc) = Inr ids"
      by simp
    from Cons.IH [OF this] Inr show ?thesis by (cases hit) simp_all
  qed
qed

lemma select_rows_none:
  "list_all (\<lambda>r. intersects lib (geometry r) sp = Inr False) rows \<Longrightarrow>
   select_rows lib sp rows acc = Inr acc"
  by (induction rows arbitrary: acc) auto

lemma py_slice_nth: "py_slice lo hi d = map ((!) d) [lo ..< min hi (length d)]"
proof (rule nth_equalityI)
  show "length (py_slice lo hi d) = length (map ((!) d) [lo..<min hi (length d)])"
    by (auto simp: py_slice_def min_def)
next
  fix i assume "i < length (py_slice lo hi d)"
  then have "i < hi - lo" "lo + i < length d"
    by (auto simp: py_slice_def)
  then show "py_slice lo hi d ! i = map ((!) d) [lo..<min hi (length d)] ! i"
    by (simp add: py_slice_def)
qed

subsection \<open>The work list (C3)\<close>

text \<open>
  C3: for every scene list, every list of intersecting cells and every set of verified
  identifiers, the work list is the scene list filtered, in its order, by: the slice
  \<^verbatim>\<open>[10:16]\<close> of the display identifier is one of the cells, and the display identifier is
  not verified; every item of it carries the initial status. The slice is the characters
  at positions 10 to 15 (those of them that the identifier has).
\<close>

theorem worklist_is_filtered_scenes:
  "data_for_table scenes zones image_tiles_set =
     map (\<lambda>t. (display_id t, NeedsDownload))
       (filter (\<lambda>t. py_slice 10 16 (display_id t) \<in> set zones
                     \<and> display_id t \<notin> image_tiles_set) scenes)
   \<and> py_slice 10 16 d = map ((!) d) [10 ..< min 16 (length d)]"
proof
  show "data_for_table scenes zones image_tiles_set =
     map (\<lambda>t. (display_id t, NeedsDownload))
       (filter (\<lambda>t. py_slice 10 16 (display_id t) \<in> set zones
                     \<and> display_id t \<notin> image_tiles_set) scenes)"
    by (induction scenes) (auto simp: any_zone_iff)
next
  show "py_slice 10 16 d = map ((!) d) [10 ..< min 16 (length d)]"
    by (rule py_slice_nth)
qed

subsection \<open>The identifiers of the intersecting cells (C9)\<close>

text \<open>
  C9, the claim as stated fails on its own example: the replacement keeps the length of
  the name, so the cell named \<^verbatim>\<open>123_045\<close> is not emitted as \<^verbatim>\<open>123045\<close>.
\<close>

theorem underscore_example_counterexample:
  "get_tile_list lattice_lib
     \<lparr> grid_crs = 0, grid_rows = [\<lparr> Name = ''123_045'', geometry = [(1, 1)] \<rparr>] \<rparr>
     example_area \<noteq> Inr [''123045'']"
  by (simp add: get_tile_list_def reproject_def lattice_lib_def example_area_def)

text \<open>
  C9, amended: when \<^verbatim>\<open>get_tile_list\<close> returns, it returns, in the order of the grid, the
  names of the rows whose geometry intersects the union of the (reprojected) input, each
  with every underscore replaced by the digit zero and every other character unchanged,
  at the same position; so the name \<^verbatim>\<open>123_045\<close> becomes \<^verbatim>\<open>1230045\<close>.
\<close>

theorem get_tile_list_identifiers:
  assumes "get_tile_list lib satellite_grid input_shapefile = Inr ids"
  shows "(\<exists>geoms single_polygon.
            reproject lib satellite_grid input_shapefile = Inr geoms
          \<and> unary_union lib geoms = Inr single_polygon
          \<and> ids = map (\<lambda>row. str_replace CHR ''_'' CHR ''0'' (Name row))
                     (filter (\<lambda>row. intersects lib (geometry row) single_polygon = Inr True)
                        (grid_rows satellite_grid)))
       \<and> length (str_replace CHR ''_'' CHR ''0'' name) = length name
       \<and> (\<forall>i<length name.
             str_replace CHR ''_'' CHR ''0'' name ! i
               = (if name ! i = CHR ''_'' then CHR ''0'' else name ! i))
       \<and> str_replace CHR ''_'' CHR ''0'' ''123_045'' = ''1230045''"
proof -
  from assms have
    "\<exists>geoms single_polygon.
        reproject lib satellite_grid input_shapefile = Inr geoms
      \<and> unary_union lib geoms = Inr single_polygon
      \<and> ids = map (\<lambda>row. str_replace CHR ''_'' CHR ''0'' (Name row))
                 (filter (\<lambda>row. intersects lib (geometry row) single_polygon = Inr True)
                    (grid_rows satellite_grid))"
    by (auto simp: get_tile_list_def split: sum.splits dest: select_rows_acc)
  moreover have "length (str_replace CHR ''_'' CHR ''0'' name) = length name"
    by (simp add: str_replace_map)
  moreover have "\<forall>i<length name.
      str_replace CHR ''_'' CHR ''0'' name ! i
        = (if name ! i = CHR ''_'' then CHR ''0'' else name ! i)"
    by (simp add: str_replace_map)
  moreover have "str_replace CHR ''_'' CHR ''0'' ''123_045'' = ''1230045''"
    by simp
  ultimately show ?thesis by blast
qed

text \<open>
  C9, the amended claim at the example grid: the area meets the first cell only, whose
  name \<^verbatim>\<open>001_02\<close> is emitted as \<^verbatim>\<open>001002\<close>.
\<close>

theorem get_tile_list_identifiers_witness:
  "get_tile_list lattice_lib example_grid example_area = Inr [''001002'']
   \<and> length (str_replace CHR ''_'' CHR ''0'' ''001_02'') = length ''001_02''
   \<and> str_replace CHR ''_'' CHR ''0'' ''001_02'' ! 3 = CHR ''0''
   \<and> str_replace CHR ''_'' CHR ''0'' ''001_02'' ! 4 = CHR ''0''"
proof -
  have run: "get_tile_list lattice_lib example_grid example_area = Inr [''001002'']"
    by (simp add: get_tile_list_def reproject_def lattice_lib_def example_grid_def
        example_area_def)
  from get_tile_list_identifiers [OF run, of "''001_02''"] have
    "length (str_replace CHR ''_'' CHR ''0'' ''001_02'') = length ''001_02''"
    and all: "\<forall>i<length ''001_02''.
      str_replace CHR ''_'' CHR ''0'' ''001_02'' ! i
        = (if ''001_02'' ! i = CHR ''_'' then CHR ''0'' else ''001_02'' ! i)"
    by blast+
  moreover from all have "str_replace CHR ''_'' CHR ''0'' ''001_02'' ! 3 = CHR ''0''"
    by simp
  moreover from all have "str_replace CHR ''_'' CHR ''0'' ''001_02'' ! 4 = CHR ''0''"
    by simp
  ultimately show ?thesis using run by blast
qed

subsection \<open>An empty area (C8)\<close>

text \<open>
  C8, the claim as stated fails: for the empty area the function raises nothing and
  returns the empty list.
\<close>

theorem empty_area_counterexample:
  "get_tile_list lattice_lib example_grid empty_area = Inr []"
  by (simp add: get_tile_list_def reproject_def lattice_lib_def example_grid_def
      empty_area_def)

text \<open>
  C8, amended: \<^verbatim>\<open>get_tile_list\<close> does not validate its input. Whenever the reprojection and
  the union of the library return and no row of the grid intersects the union, as for an
  empty area, it returns the empty list: the result for an area that meets no cell.
\<close>

theorem get_tile_list_no_intersection:
  assumes "reproject lib satellite_grid input_shapefile = Inr geoms"
    and "unary_union lib geoms = Inr single_polygon"
    and "list_all (\<lambda>row. intersects lib (geometry row) single_polygon = Inr False)
           (grid_rows satellite_grid)"
  shows "get_tile_list lib satellite_grid input_shapefile = Inr []"
  using assms by (simp add: get_tile_list_def select_rows_none)

text \<open>C8, the amended claim at the empty area over the example grid.\<close>

theorem get_tile_list_no_intersection_witness:
  "reproject lattice_lib example_grid empty_area = Inr []
   \<and> unary_union lattice_lib [] = Inr []
   \<and> list_all (\<lambda>row. intersects lattice_lib (geometry row) [] = Inr False)
        (grid_rows example_grid)
   \<and> get_tile_list lattice_lib example_grid empty_area = Inr []"
proof -
  have a: "reproject lattice_lib example_grid empty_area = Inr []"
    by (simp add: reproject_def lattice_lib_def example_grid_def empty_area_def)
  have b: "unary_union lattice_lib [] = Inr []"
    by (simp add: lattice_lib_def)
  have c: "list_all (\<lambda>row. intersects lattice_lib (geometry row) [] = Inr False)
             (grid_rows example_grid)"
    by (simp add: lattice_lib_def example_grid_def)
  from get_tile_list_no_intersection [OF a b c] a b c show ?thesis by blast
qed

subsection \<open>Facts about the catalog search and the probe\<close>

lemma landsat_search_None_iff:
  "fst (landsat_search srv u p d b s e m) = None \<longleftrightarrow>
   (isl (API srv u p) \<or> isl (api_search srv d b s e m 500) \<or> isl (api_logout srv)
     \<or> api_search srv d b s e m 500 = Inr [])"
  by (auto simp: landsat_search_def landsat_explorer_login_def split: sum.splits)

lemma landsat_search_no_EELogin:
  "EELogin \<notin> set (snd (landsat_search srv u p d b s e m))"
  by (auto simp: landsat_search_def landsat_explorer_login_def split: sum.splits exn.splits)

text \<open>
  The run over the example grid and area, with nothing verified and an empty download
  directory, when the download of the first of the two listed scenes fails.
\<close>

lemma run_first_download_fails:
  "(let r = download_landsat_images first_download_fails lattice_lib ''user'' ''secret''
              example_qp example_grid example_area {} []
    in (fst r, titles (snd r), table (snd r), events (snd r)))
   = (Inr [''LC09_L2SP_001002_B''],
      [''LC09_L2SP_001002_B''],
      [(''LC09_L2SP_001002_A'', Error), (''LC09_L2SP_001002_B'', NeedsDownload)],
      [ApiLogin, Print MsgApiConnected, ApiSearch, ApiLogout, Print (MsgScenesFound 3),
       Print (MsgZones [''001002'']), Print (MsgAfterFilter 2),
       EELogin, Print MsgEEConnected,
       ListDir ''LC09_L2SP_001002_A'', ListDir ''LC09_L2SP_001002_A.tar'',
       Print (MsgNotInStorage ''LC09_L2SP_001002_A''),
       FileInfo ''5e83d14f30ea90a9'' ''E1'', FileInfo ''5e83d14fec7cae84'' ''E1'',
       FileInfo ''632210d4770592cf'' ''E1'',
       ProgressBar ''LC09_L2SP_001002_A.tar'' (Some 1000),
       Download ''E1'' ''landsat_ot_c2_l2'',
       Print (MsgError ''LC09_L2SP_001002_A'' (External ''EarthExplorerError'')),
       Print (MsgCount 1)])"
  by code_simp

text \<open>
  The same services with the first scene already verified, so that the second scene is the
  whole work list: it is checked, downloaded and unpacked, and returned.
\<close>

lemma run_second_scene_alone:
  "(let r = download_landsat_images first_download_fails lattice_lib ''user'' ''secret''
              example_qp example_grid example_area {} [''LC09_L2SP_001002_A'']
    in (fst r, table (snd r),
        ListDir ''LC09_L2SP_001002_B'' \<in> set (events (snd r)),
        Download ''E2'' ''landsat_ot_c2_l2'' \<in> set (events (snd r))))
   = (Inr [''LC09_L2SP_001002_B''], [(''LC09_L2SP_001002_B'', Extracted)], True, True)"
  by code_simp

subsection \<open>A failed item and the items after it (C1, C2)\<close>

text \<open>
  C1, on the run above: the work list is the scenes A and B, in this order, and only the
  download of A fails. The claim wants B attempted (its storage check made, its download
  requested) and then returned. The code removes A from the list it is iterating over, so
  the iteration ends without reaching B: the directory is never searched for B and no
  download of its entity \<^verbatim>\<open>E2\<close> is requested. On its own, with A verified beforehand, B is
  processed to the end on the same services.
\<close>

theorem failed_item_hides_next_item:
  "ListDir ''LC09_L2SP_001002_B''
     \<notin> set (events (snd (download_landsat_images first_download_fails lattice_lib ''user''
                            ''secret'' example_qp example_grid example_area {} [])))
   \<and> Download ''E2'' ''landsat_ot_c2_l2''
     \<notin> set (events (snd (download_landsat_images first_download_fails lattice_lib ''user''
                            ''secret'' example_qp example_grid example_area {} [])))
   \<and> table (snd (download_landsat_images first_download_fails lattice_lib ''user'' ''secret''
                    example_qp example_grid example_area {} [''LC09_L2SP_001002_A'']))
     = [(''LC09_L2SP_001002_B'', Extracted)]"
  using run_first_download_fails run_second_scene_alone by (simp add: Let_def)

text \<open>
  C2, on the same run: the claim wants every returned identifier to be one that was
  processed to a success status. The code returns B, whose row of the table still shows
  the initial status: B was never processed.
\<close>

theorem returned_title_never_processed:
  "fst (download_landsat_images first_download_fails lattice_lib ''user'' ''secret''
          example_qp example_grid example_area {} [])
     = Inr [''LC09_L2SP_001002_B'']
   \<and> table (snd (download_landsat_images first_download_fails lattice_lib ''user'' ''secret''
                    example_qp example_grid example_area {} []))
     = [(''LC09_L2SP_001002_A'', Error), (''LC09_L2SP_001002_B'', NeedsDownload)]"
  using run_first_download_fails by (simp add: Let_def)

subsection \<open>An empty work list (C4)\<close>

text \<open>
  C4, on the run where the catalog search completes and finds no scene, the run in which
  no scene at all can pass the filter: the claim wants the empty list returned, without a
  login to the download service. \<^verbatim>\<open>landsat_search\<close> returns \<^verbatim>\<open>None\<close> there, since its
  \<^verbatim>\<open>return\<close> stands in the other branch, and the comprehension that builds the work list
  iterates over it: the run raises TypeError and returns no list. No login to the
  download service happens.
\<close>

theorem zero_scenes_raise_instead_of_empty_list:
  "download_landsat_images search_finds_nothing lattice_lib ''user'' ''secret'' example_qp
     example_grid example_area {} []
   = (Inl TypeError,
      \<lparr> titles = [], table = [], files = {},
        events = [ApiLogin, Print MsgApiConnected, ApiSearch, ApiLogout, Print MsgNoProducts,
                  Print (MsgZones [''001002''])] \<rparr>)"
  by (simp add: download_landsat_images_def landsat_search_def landsat_explorer_login_def
      search_finds_nothing_def good_remote_def get_tile_list_def reproject_def lattice_lib_def
      example_grid_def example_area_def)

text \<open>
  What the code does when the search returns scenes: if the grid intersection returns and
  no scene passes the filter, the function returns the empty list and no login to the
  download service happens in the run.
\<close>

lemma filtered_out_returns_without_login:
  assumes "landsat_search srv username password (dataset qp) (bbox qp) (start_date qp)
             (end_date qp) (max_cloud_cover qp) = (Some scenes, evs)"
    and "get_tile_list lib satellite_grid input_shapefile = Inr zones"
    and "data_for_table scenes zones (set verified_tiles) = []"
  shows "fst (download_landsat_images srv lib username password qp satellite_grid
                input_shapefile dir_downld verified_tiles) = Inr []
       \<and> EELogin \<notin> set (events (snd (download_landsat_images srv lib username password qp
                                        satellite_grid input_shapefile dir_downld
                                        verified_tiles)))"
  using assms
    landsat_search_no_EELogin [of srv username password "dataset qp" "bbox qp"
      "start_date qp" "end_date qp" "max_cloud_cover qp"]
  by (simp add: download_landsat_images_def)

text \<open>
  The run where both scenes of the intersecting cell are already verified is one of these.
\<close>

lemma filtered_out_returns_without_login_example:
  "fst (download_landsat_images good_remote lattice_lib ''user'' ''secret'' example_qp
          example_grid example_area {} [''LC09_L2SP_001002_A'', ''LC09_L2SP_001002_B''])
     = Inr []
   \<and> EELogin \<notin> set (events (snd (download_landsat_images good_remote lattice_lib ''user''
                ''secret'' example_qp example_grid example_area {}
                [''LC09_L2SP_001002_A'', ''LC09_L2SP_001002_B''])))"
proof -
  have search:
    "landsat_search good_remote ''user'' ''secret'' (dataset example_qp) (bbox example_qp)
       (start_date example_qp) (end_date example_qp) (max_cloud_cover example_qp)
     = (Some [scene_a, scene_b, scene_c],
        [ApiLogin, Print MsgApiConnected, ApiSearch, ApiLogout, Print (MsgScenesFound 3)])"
    by (simp add: landsat_search_def landsat_explorer_login_def good_remote_def)
  have zones: "get_tile_list lattice_lib example_grid example_area = Inr [''001002'']"
    by (simp add: get_tile_list_def reproject_def lattice_lib_def example_grid_def
        example_area_def)
  have filtered:
    "data_for_table [scene_a, scene_b, scene_c] [''001002'']
       (set [''LC09_L2SP_001002_A'', ''LC09_L2SP_001002_B'']) = []"
    by (simp add: scene_a_def scene_b_def scene_c_def py_slice_def)
  from filtered_out_returns_without_login
         [where srv = good_remote and lib = lattice_lib and qp = example_qp
            and verified_tiles = "[''LC09_L2SP_001002_A'', ''LC09_L2SP_001002_B'']",
          OF search zones filtered]
  show ?thesis .
qed

subsection \<open>The probe for the file size (C5)\<close>













subsection \<open>The catalog search: logout and the empty result (C6, C7)\<close>

text \<open>
  C6, on a search that raises after a successful login: the claim wants the logout to run
  on the exception path too. In the code \<^verbatim>\<open>api.logout()\<close> follows \<^verbatim>\<open>api.search\<close> inside the
  \<^verbatim>\<open>try\<close> block, so the exception skips it: the run logs in, searches, prints the failure
  line and returns \<^verbatim>\<open>None\<close>, and no logout is sent.
\<close>

theorem search_exception_skips_logout:
  "landsat_search search_fails ''user'' ''secret'' ''landsat_ot_c2_l2'' ''0, 0, 2, 2''
     ''2024-01-01'' ''2024-02-01'' ''10''
     = (None, [ApiLogin, Print MsgApiConnected, ApiSearch, Print MsgCannotProcess])
   \<and> ApiLogout \<notin> set (snd (landsat_search search_fails ''user'' ''secret''
                               ''landsat_ot_c2_l2'' ''0, 0, 2, 2'' ''2024-01-01''
                               ''2024-02-01'' ''10''))"
  by (simp add: landsat_search_def landsat_explorer_login_def search_fails_def
      good_remote_def)

text \<open>
  C7, on a search that completes with no scene and on one that raises: the claim wants
  the caller to tell the two apart. The function returns \<^verbatim>\<open>None\<close> to its caller in both;
  only the line printed differs.
\<close>

theorem empty_result_returned_like_failure:
  "fst (landsat_search search_finds_nothing ''user'' ''secret'' ''landsat_ot_c2_l2''
          ''0, 0, 2, 2'' ''2024-01-01'' ''2024-02-01'' ''10'') = None
   \<and> fst (landsat_search search_fails ''user'' ''secret'' ''landsat_ot_c2_l2''
          ''0, 0, 2, 2'' ''2024-01-01'' ''2024-02-01'' ''10'') = None
   \<and> last (snd (landsat_search search_finds_nothing ''user'' ''secret'' ''landsat_ot_c2_l2''
          ''0, 0, 2, 2'' ''2024-01-01'' ''2024-02-01'' ''10'')) = Print MsgNoProducts
   \<and> last (snd (landsat_search search_fails ''user'' ''secret'' ''landsat_ot_c2_l2''
          ''0, 0, 2, 2'' ''2024-01-01'' ''2024-02-01'' ''10'')) = Print MsgCannotProcess"
  by (simp add: landsat_search_def landsat_explorer_login_def search_finds_nothing_def
      search_fails_def good_remote_def)

subsection \<open>No scene list (C10)\<close>

text \<open>
  C10: \<^verbatim>\<open>landsat_search\<close> returns \<^verbatim>\<open>None\<close> exactly when the login, the search or the logout
  raised or the search found no scene. Whenever it returns \<^verbatim>\<open>None\<close>,
  \<^verbatim>\<open>download_landsat_images\<close> raises instead of returning a list; and once the grid
  intersection has returned, what it raises is the TypeError of iterating over \<^verbatim>\<open>None\<close> in
  the comprehension that builds the work list, before any login to the download service.
\<close>

theorem none_query_raises:
  "(fst (landsat_search srv username password d b s e m) = None \<longleftrightarrow>
      (isl (API srv username password) \<or> isl (api_search srv d b s e m 500)
        \<or> isl (api_logout srv) \<or> api_search srv d b s e m 500 = Inr []))
   \<and> (fst (landsat_search srv username password (dataset qp) (bbox qp) (start_date qp)
              (end_date qp) (max_cloud_cover qp)) = None
      \<longrightarrow> isl (fst (download_landsat_images srv lib username password qp satellite_grid
                       input_shapefile dir_downld verified_tiles))
          \<and> (get_tile_list lib satellite_grid input_shapefile = Inr zones
              \<longrightarrow> fst (download_landsat_images srv lib username password qp satellite_grid
                          input_shapefile dir_downld verified_tiles) = Inl TypeError
                  \<and> EELogin \<notin> set (events (snd (download_landsat_images srv lib username
                                password qp satellite_grid input_shapefile dir_downld
                                verified_tiles)))))"
proof (intro conjI impI)
  show "fst (landsat_search srv username password d b s e m) = None \<longleftrightarrow>
      (isl (API srv username password) \<or> isl (api_search srv d b s e m 500)
        \<or> isl (api_logout srv) \<or> api_search srv d b s e m 500 = Inr [])"
    by (rule landsat_search_None_iff)
next
  assume "fst (landsat_search srv username password (dataset qp) (bbox qp) (start_date qp)
              (end_date qp) (max_cloud_cover qp)) = None"
  then show "isl (fst (download_landsat_images srv lib username password qp satellite_grid
                       input_shapefile dir_downld verified_tiles))"
    by (auto simp: download_landsat_images_def split: prod.splits sum.splits)
next
  assume "fst (landsat_search srv username password (dataset qp) (bbox qp) (start_date qp)
              (end_date qp) (max_cloud_cover qp)) = None"
    and "get_tile_list lib satellite_grid input_shapefile = Inr zones"
  then show "fst (download_landsat_images srv lib username password qp satellite_grid
                          input_shapefile dir_downld verified_tiles) = Inl TypeError"
    by (auto simp: download_landsat_images_def split: prod.splits)
next
  assume "fst (landsat_search srv username password (dataset qp) (bbox qp) (start_date qp)
              (end_date qp) (max_cloud_cover qp)) = None"
    and "get_tile_list lib satellite_grid input_shapefile = Inr zones"
  then show "EELogin \<notin> set (events (snd (download_landsat_images srv lib username
                                password qp satellite_grid input_shapefile dir_downld
                                verified_tiles)))"
    using landsat_search_no_EELogin [of srv username password "dataset qp" "bbox qp"
      "start_date qp" "end_date qp" "max_cloud_cover qp"]
    by (auto simp: download_landsat_images_def split: prod.splits)
qed

text \<open>
  C10, on a search that finds no scene: the search returns \<^verbatim>\<open>None\<close> and the run over the
  example grid and area raises TypeError.
\<close>

theorem none_query_raises_witness:
  "fst (landsat_search search_finds_nothing ''user'' ''secret'' (dataset example_qp)
          (bbox example_qp) (start_date example_qp) (end_date example_qp)
          (max_cloud_cover example_qp)) = None
   \<and> fst (download_landsat_images search_finds_nothing lattice_lib ''user'' ''secret''
            example_qp example_grid example_area {} []) = Inl TypeError"
proof -
  note inst = none_query_raises
    [where srv = search_finds_nothing and username = "''user''" and password = "''secret''"
       and d = "dataset example_qp" and b = "bbox example_qp" and s = "start_date example_qp"
       and e = "end_date example_qp" and m = "max_cloud_cover example_qp"
       and qp = example_qp and lib = lattice_lib and satellite_grid = example_grid
       and input_shapefile = example_area and dir_downld = "{}" and verified_tiles = "[]"
       and zones = "[''001002'']"]
  have found: "api_search search_finds_nothing (dataset example_qp) (bbox example_qp)
                 (start_date example_qp) (end_date example_qp) (max_cloud_cover example_qp)
                 500 = Inr []"
    by (simp add: search_finds_nothing_def)
  have zones: "get_tile_list lattice_lib example_grid example_area = Inr [''001002'']"
    by (simp add: get_tile_list_def reproject_def lattice_lib_def example_grid_def
        example_area_def)
  from inst [THEN conjunct1] found
  have none: "fst (landsat_search search_finds_nothing ''user'' ''secret''
                     (dataset example_qp) (bbox example_qp) (start_date example_qp)
                     (end_date example_qp) (max_cloud_cover example_qp)) = None"
    by blast
  from inst [THEN conjunct2] none zones
  have "fst (download_landsat_images search_finds_nothing lattice_lib ''user'' ''secret''
               example_qp example_grid example_area {} []) = Inl TypeError"
    by blast
  with none show ?thesis by blast
qed

end
